theory Spec2Isabelle
  imports Complex_Main
begin

section \<open>JavaScript numbers\<close>

text \<open>
  The library computes with JavaScript numbers.  A number is modelled as one of the
  special values of IEEE 754 (not-a-number, the two infinities, negative zero) or
  a finite value \<open>Fin x\<close> carrying a real \<open>x\<close>; \<open>Fin 0\<close> is positive zero.
  The arithmetic on the special values follows IEEE 754 and the ECMAScript standard.
  On finite values the arithmetic is exact: rounding, overflow and underflow of
  doubles are not part of the model.
\<close>

datatype jsnum = NaN | PInf | NInf | NZero | Fin real

fun is_nan :: "jsnum \<Rightarrow> bool" where
  "is_nan NaN = True"
| "is_nan _ = False"

fun is_inf :: "jsnum \<Rightarrow> bool" where
  "is_inf PInf = True"
| "is_inf NInf = True"
| "is_inf _ = False"

fun is_zero :: "jsnum \<Rightarrow> bool" where
  "is_zero NZero = True"
| "is_zero (Fin x) = (x = 0)"
| "is_zero _ = False"

text \<open>The sign bit of a number that is not NaN.\<close>

fun is_negative :: "jsnum \<Rightarrow> bool" where
  "is_negative NInf = True"
| "is_negative NZero = True"
| "is_negative (Fin x) = (x < 0)"
| "is_negative _ = False"

text \<open>The real value of a finite number.\<close>

fun val :: "jsnum \<Rightarrow> real" where
  "val (Fin x) = x"
| "val _ = 0"

definition signed_zero :: "bool \<Rightarrow> jsnum" where
  "signed_zero neg = (if neg then NZero else Fin 0)"

definition signed_inf :: "bool \<Rightarrow> jsnum" where
  "signed_inf neg = (if neg then NInf else PInf)"

text \<open>
  The operators \<open>-x\<close>, \<open>x + y\<close>, \<open>x - y\<close>, \<open>x * y\<close> and \<open>x / y\<close> of JavaScript on numbers.
  A sum of two finite numbers that is zero is positive zero, unless both are negative
  zero; a product or quotient that is zero takes the exclusive or of the signs;
  \<open>x - y\<close> is \<open>x + (-y)\<close>.
\<close>

instantiation jsnum :: "{uminus, plus, minus, times, divide}"
begin

fun uminus_jsnum :: "jsnum \<Rightarrow> jsnum" where
  "uminus_jsnum NaN = NaN"
| "uminus_jsnum PInf = NInf"
| "uminus_jsnum NInf = PInf"
| "uminus_jsnum NZero = Fin 0"
| "uminus_jsnum (Fin x) = (if x = 0 then NZero else Fin (- x))"

definition plus_jsnum :: "jsnum \<Rightarrow> jsnum \<Rightarrow> jsnum" where
  "plus_jsnum a b =
     (if is_nan a \<or> is_nan b then NaN
      else if is_inf a then (if is_inf b \<and> is_negative a \<noteq> is_negative b then NaN else a)
      else if is_inf b then b
      else if a = NZero then b
      else if b = NZero then a
      else Fin (val a + val b))"

definition minus_jsnum :: "jsnum \<Rightarrow> jsnum \<Rightarrow> jsnum" where
  "minus_jsnum a b = a + (- b)"

definition times_jsnum :: "jsnum \<Rightarrow> jsnum \<Rightarrow> jsnum" where
  "times_jsnum a b =
     (if is_nan a \<or> is_nan b then NaN
      else if is_inf a \<or> is_inf b then
        (if is_zero a \<or> is_zero b then NaN
         else signed_inf (is_negative a \<noteq> is_negative b))
      else if is_zero a \<or> is_zero b then signed_zero (is_negative a \<noteq> is_negative b)
      else Fin (val a * val b))"

definition divide_jsnum :: "jsnum \<Rightarrow> jsnum \<Rightarrow> jsnum" where
  "divide_jsnum a b =
     (if is_nan a \<or> is_nan b then NaN
      else if is_inf a then
        (if is_inf b then NaN else signed_inf (is_negative a \<noteq> is_negative b))
      else if is_inf b then signed_zero (is_negative a \<noteq> is_negative b)
      else if is_zero b then
        (if is_zero a then NaN else signed_inf (is_negative a \<noteq> is_negative b))
      else if is_zero a then signed_zero (is_negative a \<noteq> is_negative b)
      else Fin (val a / val b))"

instance ..

end

instantiation jsnum :: inverse
begin

definition inverse_jsnum :: "jsnum \<Rightarrow> jsnum" where
  "inverse_jsnum a = divide (Fin 1) a"

instance ..

end

text \<open>\<open>Math.log\<close>, \<open>Math.exp\<close> and \<open>Math.sqrt\<close>.\<close>

fun Math_log :: "jsnum \<Rightarrow> jsnum" where
  "Math_log NaN = NaN"
| "Math_log PInf = PInf"
| "Math_log NInf = NaN"
| "Math_log NZero = NInf"
| "Math_log (Fin x) = (if x = 0 then NInf else if x < 0 then NaN else Fin (ln x))"

fun Math_exp :: "jsnum \<Rightarrow> jsnum" where
  "Math_exp NaN = NaN"
| "Math_exp PInf = PInf"
| "Math_exp NInf = Fin 0"
| "Math_exp NZero = Fin 1"
| "Math_exp (Fin x) = Fin (exp x)"

fun Math_sqrt :: "jsnum \<Rightarrow> jsnum" where
  "Math_sqrt NaN = NaN"
| "Math_sqrt PInf = PInf"
| "Math_sqrt NInf = NaN"
| "Math_sqrt NZero = NZero"
| "Math_sqrt (Fin x) = (if x < 0 then NaN else Fin (sqrt x))"

text \<open>
  \<open>Math.pow\<close> at an exponent that is a natural number (the library only calls
  \<open>Math.pow(sigma, 2)\<close>): the repeated product, which agrees with the standard's table
  of special values at such exponents.
\<close>

primrec Math_pow :: "jsnum \<Rightarrow> nat \<Rightarrow> jsnum" where
  "Math_pow x 0 = Fin 1"
| "Math_pow x (Suc n) = x * Math_pow x n"

section \<open>The error function\<close>

text \<open>
  Modelled from the spec: \<open>erf\<close> is imported from the package mathjs, whose code is not
  part of the repository.  The spec asks for the error function of mathematics.  On the
  reals it is defined here as the integral \<open>\<integral>\<^sub>0\<^sup>x exp (- t\<^sup>2) dt\<close>, given by its power series,
  divided by the supremum of that integral over all \<open>x\<close>, which is its limit at infinity.
  Lemma \<open>erf_unique\<close> below shows that this is the only function that is 0 at 0, has a
  derivative proportional to \<open>exp (- x\<^sup>2)\<close> and tends to 1 at infinity.
\<close>

definition erf_coeff :: "nat \<Rightarrow> real" where
  "erf_coeff k =
     (if odd k then (- 1) ^ ((k - 1) div 2) / (fact ((k - 1) div 2) * real k) else 0)"

definition gauss_int :: "real \<Rightarrow> real" where
  "gauss_int x = (\<Sum>k. erf_coeff k * x ^ k)"

definition gauss_total :: real where
  "gauss_total = (SUP x. gauss_int x)"

definition erf :: "real \<Rightarrow> real" where
  "erf x = gauss_int x / gauss_total"

text \<open>
  Modelled from the spec: \<open>erf\<close> of mathjs on numbers.  It sends NaN to NaN, saturates
  at the infinities (1 at the positive, -1 at the negative one) and keeps the sign of a
  zero; at a finite argument it is the error function above.
\<close>

fun js_erf :: "jsnum \<Rightarrow> jsnum" where
  "js_erf NaN = NaN"
| "js_erf PInf = Fin 1"
| "js_erf NInf = Fin (- 1)"
| "js_erf NZero = NZero"
| "js_erf (Fin x) = Fin (erf x)"

section \<open>The pricing library\<close>

text \<open>
  An optional trailing parameter with a default (\<open>mu = 0\<close>) is an \<open>option\<close>:
  \<open>None\<close> is the omitted argument, for which the default stands in.
\<close>

definition dflt :: "jsnum \<Rightarrow> jsnum option \<Rightarrow> jsnum" where
  "dflt v arg = (case arg of None \<Rightarrow> v | Some a \<Rightarrow> a)"

definition normCdf :: "jsnum \<Rightarrow> jsnum option \<Rightarrow> jsnum option \<Rightarrow> jsnum" where
  "normCdf x mu' sigma' =
     (let mu = dflt (Fin 0) mu'; sigma = dflt (Fin 1) sigma'
      in Fin 0.5 * (Fin 1 - js_erf ((mu - x) / (Math_sqrt (Fin 2) * sigma))))"

definition blackScholesCall ::
  "jsnum \<Rightarrow> jsnum \<Rightarrow> jsnum \<Rightarrow> jsnum \<Rightarrow> jsnum \<Rightarrow> jsnum option \<Rightarrow> jsnum" where
  "blackScholesCall S K sigma r t d' =
     (let d = dflt (Fin 0) d';
          d1 = (Math_log (S / K) + (r - d + Math_pow sigma 2 / Fin 2) * t)
                 / (sigma * Math_sqrt t);
          d2 = d1 - sigma * Math_sqrt t
      in S * Math_exp ((- d) * t) * normCdf d1 None None
           - K * Math_exp ((- r) * t) * normCdf d2 None None)"

definition blackScholesPut ::
  "jsnum \<Rightarrow> jsnum \<Rightarrow> jsnum \<Rightarrow> jsnum \<Rightarrow> jsnum \<Rightarrow> jsnum option \<Rightarrow> jsnum" where
  "blackScholesPut S K sigma r t d' =
     (let d = dflt (Fin 0) d';
          d1 = (Math_log (S / K) + (r - d + Math_pow sigma 2 / Fin 2) * t)
                 / (sigma * Math_sqrt t);
          d2 = d1 - sigma * Math_sqrt t
      in K * Math_exp ((- r) * t) * normCdf (- d2) None None
           - S * Math_exp ((- d) * t) * normCdf (- d1) None None)"

definition blackScholesWarrantCall ::
  "jsnum \<Rightarrow> jsnum \<Rightarrow> jsnum \<Rightarrow> jsnum \<Rightarrow> jsnum \<Rightarrow> jsnum option \<Rightarrow> jsnum" where
  "blackScholesWarrantCall S K sigma r t q' =
     (let q = dflt (Fin 1) q';
          d1 = (Math_log (S / K) + (r + Math_pow sigma 2 / Fin 2) * t)
                 / (sigma * Math_sqrt t);
          d2 = d1 - sigma * Math_sqrt t
      in (S * normCdf d1 None None - K * Math_exp ((- r) * t) * normCdf d2 None None) / q)"

text \<open>The names the module exports, and the name of its default export.\<close>

definition exports :: "string list" where
  "exports = [''blackScholesCall'', ''blackScholesPut'', ''blackScholesWarrantCall'']"

definition default_export :: string where
  "default_export = ''blackScholesCall''"

section \<open>The formulas of the specification\<close>

text \<open>
  The pricing formulas as the specification writes them, over the same numbers:
  \<open>sigma\<^sup>2\<close> is the product \<open>sigma * sigma\<close>, \<open>e\<^sup>-\<^sup>d\<^sup>t\<close> is the exponential of the negated
  product, and \<open>\<Phi>\<close> is the standard normal distribution function, computed by
  \<open>normCdf\<close> with its default mean and deviation.
\<close>

definition spec_Phi :: "jsnum \<Rightarrow> jsnum" where
  "spec_Phi x = normCdf x None None"

definition spec_d1 :: "jsnum \<Rightarrow> jsnum \<Rightarrow> jsnum \<Rightarrow> jsnum \<Rightarrow> jsnum \<Rightarrow> jsnum \<Rightarrow> jsnum" where
  "spec_d1 S K sigma r t d =
     (Math_log (S / K) + (r - d + sigma * sigma / Fin 2) * t) / (sigma * Math_sqrt t)"

definition spec_d2 :: "jsnum \<Rightarrow> jsnum \<Rightarrow> jsnum \<Rightarrow> jsnum \<Rightarrow> jsnum \<Rightarrow> jsnum \<Rightarrow> jsnum" where
  "spec_d2 S K sigma r t d = spec_d1 S K sigma r t d - sigma * Math_sqrt t"

definition spec_call :: "jsnum \<Rightarrow> jsnum \<Rightarrow> jsnum \<Rightarrow> jsnum \<Rightarrow> jsnum \<Rightarrow> jsnum \<Rightarrow> jsnum" where
  "spec_call S K sigma r t d =
     S * Math_exp (- (d * t)) * spec_Phi (spec_d1 S K sigma r t d)
       - K * Math_exp (- (r * t)) * spec_Phi (spec_d2 S K sigma r t d)"

definition spec_put :: "jsnum \<Rightarrow> jsnum \<Rightarrow> jsnum \<Rightarrow> jsnum \<Rightarrow> jsnum \<Rightarrow> jsnum \<Rightarrow> jsnum" where
  "spec_put S K sigma r t d =
     K * Math_exp (- (r * t)) * spec_Phi (- spec_d2 S K sigma r t d)
       - S * Math_exp (- (d * t)) * spec_Phi (- spec_d1 S K sigma r t d)"

definition spec_warrant_d1 :: "jsnum \<Rightarrow> jsnum \<Rightarrow> jsnum \<Rightarrow> jsnum \<Rightarrow> jsnum \<Rightarrow> jsnum" where
  "spec_warrant_d1 S K sigma r t =
     (Math_log (S / K) + (r + sigma * sigma / Fin 2) * t) / (sigma * Math_sqrt t)"

definition spec_warrant_d2 :: "jsnum \<Rightarrow> jsnum \<Rightarrow> jsnum \<Rightarrow> jsnum \<Rightarrow> jsnum \<Rightarrow> jsnum" where
  "spec_warrant_d2 S K sigma r t = spec_warrant_d1 S K sigma r t - sigma * Math_sqrt t"

definition spec_warrant :: "jsnum \<Rightarrow> jsnum \<Rightarrow> jsnum \<Rightarrow> jsnum \<Rightarrow> jsnum \<Rightarrow> jsnum \<Rightarrow> jsnum" where
  "spec_warrant S K sigma r t q =
     (S * spec_Phi (spec_warrant_d1 S K sigma r t)
        - K * Math_exp (- (r * t)) * spec_Phi (spec_warrant_d2 S K sigma r t)) / q"

section \<open>Values on the reals\<close>

text \<open>
  What the library computes at finite arguments, as functions on the reals: the
  standard normal distribution function as \<open>normCdf\<close> evaluates it, the two
  parameters \<open>d1\<close> and \<open>d2\<close> of the pricing formulas, and the scaled complementary
  error function \<open>(1 - erf u) * exp (u\<^sup>2)\<close>, which the proofs of the price bounds use.
\<close>

definition Phi :: "real \<Rightarrow> real" where
  "Phi x = (1 - erf (- x / sqrt 2)) / 2"




text \<open>
  A number that is NaN or an infinity.
\<close>

definition not_finite :: "jsnum \<Rightarrow> bool" where
  "not_finite x = (is_nan x \<or> is_inf x)"

section \<open>Arithmetic of JavaScript numbers\<close>

lemma fin_add [simp]: "Fin a + Fin b = Fin (a + b)"
  by (simp add: plus_jsnum_def)

lemma fin_sub [simp]: "Fin a - Fin b = Fin (a - b)"
  by (simp add: minus_jsnum_def plus_jsnum_def)

lemma fin_mul: "Fin a * Fin b = (if a * b = 0 \<and> ((a < 0) \<noteq> (b < 0)) then NZero else Fin (a * b))"
  by (auto simp add: times_jsnum_def signed_zero_def)

lemma fin_mul_pos [simp]: "0 < b \<Longrightarrow> Fin a * Fin b = Fin (a * b)"
  by (auto simp add: fin_mul)

lemma fin_mul_pos' [simp]: "0 < a \<Longrightarrow> Fin a * Fin b = Fin (a * b)"
  by (auto simp add: fin_mul)

lemma fin_div: "b \<noteq> 0 \<Longrightarrow> Fin a / Fin b = (if a = 0 \<and> b < 0 then NZero else Fin (a / b))"
  by (auto simp add: divide_jsnum_def signed_zero_def)

lemma mul_one [simp]: "x * Fin 1 = x"
  by (cases x) (auto simp add: times_jsnum_def signed_zero_def signed_inf_def)

lemma div_one [simp]: "x / Fin 1 = x"
  by (cases x) (auto simp add: divide_jsnum_def signed_zero_def signed_inf_def)

lemma neg_mul: "(- a) * b = - (a * b)" for a b :: jsnum
  by (cases a; cases b) (auto simp add: times_jsnum_def signed_zero_def signed_inf_def)

lemma Math_pow_2: "Math_pow x 2 = x * x"
  by (simp add: numeral_2_eq_2)

lemma sub_zero [simp]: "x - Fin 0 = x"
  by (cases x) (auto simp add: minus_jsnum_def plus_jsnum_def)

lemma fin_sub_NZero [simp]: "Fin a - NZero = Fin a"
  by (simp add: minus_jsnum_def plus_jsnum_def)

lemma NaN_ops [simp]:
  "NaN + x = NaN" "x + NaN = NaN" "NaN - x = NaN" "x - NaN = NaN"
  "NaN * x = NaN" "x * NaN = NaN" "NaN / x = NaN" "x / NaN = NaN"
  by (simp_all add: minus_jsnum_def plus_jsnum_def times_jsnum_def divide_jsnum_def)

lemma mul_PInf: "not_finite (a * PInf)"
  by (cases a) (auto simp add: times_jsnum_def signed_inf_def not_finite_def)

lemma add_not_finite: "not_finite b \<Longrightarrow> not_finite (a + b)"
  by (cases a; cases b) (auto simp add: plus_jsnum_def not_finite_def)

lemma div_not_finite: "not_finite a \<Longrightarrow> not_finite b \<Longrightarrow> a / b = NaN"
  by (cases a; cases b) (auto simp add: divide_jsnum_def not_finite_def)

lemma exp_NZero_mul: "Math_exp (NZero * t) = (if not_finite t then NaN else Fin 1)"
  by (cases t) (auto simp add: times_jsnum_def signed_zero_def not_finite_def)


section \<open>The error function on the reals\<close>

subsection \<open>The integral of the Gaussian as a power series\<close>

lemma gauss_terms_summable:
  "summable (\<lambda>n. (- 1) ^ n * x ^ (2 * n + 1) / (fact n * real (2 * n + 1)))" for x :: real
proof (rule summable_comparison_test' [where N = 0])
  show "summable (\<lambda>n. \<bar>x\<bar> * (inverse (fact n) * (x\<^sup>2) ^ n))"
    by (rule summable_mult [OF summable_exp])
  fix n :: nat
  have "norm ((- 1) ^ n * x ^ (2 * n + 1) / (fact n * real (2 * n + 1)))
      = \<bar>x\<bar> * (x\<^sup>2) ^ n / (fact n * real (2 * n + 1))"
    by (simp add: abs_mult power_abs power_mult abs_divide)
  also have "\<dots> \<le> \<bar>x\<bar> * (x\<^sup>2) ^ n / (fact n * 1)"
    by (intro divide_left_mono mult_left_mono) (simp_all)
  also have "\<dots> = \<bar>x\<bar> * (inverse (fact n) * (x\<^sup>2) ^ n)"
    by (simp add: field_simps)
  finally show "norm ((- 1) ^ n * x ^ (2 * n + 1) / (fact n * real (2 * n + 1)))
      \<le> \<bar>x\<bar> * (inverse (fact n) * (x\<^sup>2) ^ n)" .
qed

lemma erf_coeff_summable: "summable (\<lambda>k. erf_coeff k * x ^ k)"
proof -
  let ?g = "\<lambda>n. (- 1) ^ n * x ^ (2 * n + 1) / (fact n * real (2 * n + 1))"
  have "(\<lambda>k. if even k then 0 else ?g ((k - 1) div 2)) sums (\<Sum>n. ?g n)"
    by (rule sums_if' [OF summable_sums [OF gauss_terms_summable]])
  moreover have "(\<lambda>k. if even k then 0 else ?g ((k - 1) div 2)) = (\<lambda>k. erf_coeff k * x ^ k)"
  proof
    fix k :: nat
    show "(if even k then 0 else ?g ((k - 1) div 2)) = erf_coeff k * x ^ k"
    proof (cases "even k")
      case True
      then show ?thesis by (simp add: erf_coeff_def)
    next
      case False
      then obtain m where k: "k = 2 * m + 1" by (auto elim: oddE)
      show ?thesis by (simp add: erf_coeff_def k)
    qed
  qed
  ultimately show ?thesis by (simp add: sums_iff)
qed

lemma diffs_erf_coeff:
  "diffs erf_coeff k = (if even k then (- 1) ^ (k div 2) / fact (k div 2) else 0)"
  by (simp add: diffs_def erf_coeff_def)

lemma diffs_erf_coeff_sums: "(\<lambda>k. diffs erf_coeff k * x ^ k) sums exp (- (x\<^sup>2))"
proof -
  let ?f = "\<lambda>n. (- (x\<^sup>2)) ^ n /\<^sub>R fact n"
  have "(\<lambda>k. if even k then ?f (k div 2) else (\<lambda>n. 0) ((k - 1) div 2)) sums (0 + exp (- (x\<^sup>2)))"
    by (rule sums_if [OF sums_zero exp_converges])
  moreover have "(\<lambda>k. if even k then ?f (k div 2) else 0) = (\<lambda>k. diffs erf_coeff k * x ^ k)"
  proof
    fix k :: nat
    show "(if even k then ?f (k div 2) else 0) = diffs erf_coeff k * x ^ k"
    proof (cases "even k")
      case True
      then obtain m where k: "k = 2 * m" by (auto elim: evenE)
      show ?thesis
        by (simp add: diffs_erf_coeff k power_mult power_minus [of "x\<^sup>2"] divide_inverse)
    next
      case False
      then show ?thesis by (simp add: diffs_erf_coeff)
    qed
  qed
  ultimately show ?thesis by simp
qed

lemma DERIV_gauss_int: "DERIV gauss_int x :> exp (- (x\<^sup>2))"
proof -
  have "DERIV (\<lambda>x. \<Sum>k. erf_coeff k * x ^ k) x :> (\<Sum>k. diffs erf_coeff k * x ^ k)"
    by (rule termdiffs_strong_converges_everywhere) (rule erf_coeff_summable)
  moreover have "(\<Sum>k. diffs erf_coeff k * x ^ k) = exp (- (x\<^sup>2))"
    using diffs_erf_coeff_sums [of x] by (simp add: sums_iff)
  moreover have "gauss_int = (\<lambda>x. \<Sum>k. erf_coeff k * x ^ k)"
    by (rule ext) (simp add: gauss_int_def)
  ultimately show ?thesis by simp
qed

lemma gauss_int_0: "gauss_int 0 = 0"
proof -
  have "(\<lambda>k. erf_coeff k * 0 ^ k) = (\<lambda>k. 0)"
    by (rule ext) (simp add: erf_coeff_def power_0_left)
  then show ?thesis by (simp add: gauss_int_def)
qed


lemma gauss_int_strict_mono:
  assumes "a < b"
  shows "gauss_int a < gauss_int b"
proof (rule DERIV_pos_imp_increasing [of a b gauss_int, OF assms])
  fix x :: real
  show "\<exists>y. DERIV gauss_int x :> y \<and> 0 < y"
    using DERIV_gauss_int [of x] by (intro exI [of _ "exp (- (x\<^sup>2))"]) simp
qed

lemma gauss_int_mono: "a \<le> b \<Longrightarrow> gauss_int a \<le> gauss_int b"
  using gauss_int_strict_mono [of a b] by (cases "a = b") auto

subsection \<open>The integral is bounded\<close>

text \<open>
  Beyond \<open>u > 0\<close> the integrand \<open>exp (- x\<^sup>2)\<close> is below \<open>x / u * exp (- x\<^sup>2)\<close>, whose
  integral is elementary.  This bounds the integral, and its supremum from above.
\<close>

lemma gauss_int_tail:
  assumes "0 < u" "u \<le> y"
  shows "gauss_int y - gauss_int u \<le> (exp (- (u\<^sup>2)) - exp (- (y\<^sup>2))) / (2 * u)"
proof -
  let ?k = "\<lambda>x. gauss_int x + exp (- (x\<^sup>2)) / (2 * u)"
  have "?k y \<le> ?k u"
  proof (rule DERIV_nonpos_imp_nonincreasing [OF assms(2)])
    fix x :: real
    assume x: "u \<le> x" "x \<le> y"
    have "DERIV ?k x :> exp (- (x\<^sup>2)) + exp (- (x\<^sup>2)) * (- (2 * x)) / (2 * u)"
      using assms(1)
      by (auto intro!: derivative_eq_intros DERIV_gauss_int simp add: power2_eq_square)
    moreover have "exp (- (x\<^sup>2)) + exp (- (x\<^sup>2)) * (- (2 * x)) / (2 * u) \<le> 0"
    proof -
      have "exp (- (x\<^sup>2)) + exp (- (x\<^sup>2)) * (- (2 * x)) / (2 * u)
          = exp (- (x\<^sup>2)) * ((u - x) / u)"
        using assms(1) by (simp add: field_simps)
      also have "\<dots> \<le> 0"
        using assms(1) x by (intro mult_nonneg_nonpos divide_nonpos_pos) simp_all
      finally show ?thesis .
    qed
    ultimately show "\<exists>d. DERIV ?k x :> d \<and> d \<le> 0" by blast
  qed
  then show ?thesis by (simp add: diff_divide_distrib)
qed

lemma gauss_int_bound:
  assumes "0 < u"
  shows "gauss_int y \<le> gauss_int u + exp (- (u\<^sup>2)) / (2 * u)"
proof (cases "u \<le> y")
  case True
  have "(exp (- (u\<^sup>2)) - exp (- (y\<^sup>2))) / (2 * u) \<le> exp (- (u\<^sup>2)) / (2 * u)"
    using assms by (intro divide_right_mono) simp_all
  then show ?thesis using gauss_int_tail [OF assms True] by linarith
next
  case False
  then have "gauss_int y \<le> gauss_int u" by (intro gauss_int_mono) simp
  moreover have "0 \<le> exp (- (u\<^sup>2)) / (2 * u)" using assms by simp
  ultimately show ?thesis by linarith
qed

lemma gauss_int_bdd: "bdd_above (range gauss_int)"
proof (rule bdd_aboveI)
  fix v assume "v \<in> range gauss_int"
  then obtain y where "v = gauss_int y" by auto
  then show "v \<le> gauss_int 1 + exp (- (1\<^sup>2)) / (2 * 1)"
    using gauss_int_bound [of 1 y] by simp
qed

lemma gauss_int_le_total: "gauss_int y \<le> gauss_total"
  unfolding gauss_total_def by (rule cSUP_upper [OF UNIV_I gauss_int_bdd])

lemma gauss_int_less_total: "gauss_int y < gauss_total"
  using gauss_int_strict_mono [of y "y + 1"] gauss_int_le_total [of "y + 1"] by simp

lemma gauss_total_pos: "0 < gauss_total"
  using gauss_int_less_total [of 0] by (simp add: gauss_int_0)

lemma gauss_total_le:
  assumes "0 < u"
  shows "gauss_total \<le> gauss_int u + exp (- (u\<^sup>2)) / (2 * u)"
  unfolding gauss_total_def
  by (rule cSUP_least) (simp_all add: gauss_int_bound [OF assms])

lemma gauss_total_less:
  assumes "0 < u"
  shows "gauss_total - gauss_int u < exp (- (u\<^sup>2)) / (2 * u)"
proof -
  let ?w = "u + 1"
  have w: "0 < ?w" "u \<le> ?w" using assms by simp_all
  have 1: "gauss_total \<le> gauss_int ?w + exp (- (?w\<^sup>2)) / (2 * ?w)"
    by (rule gauss_total_le [OF w(1)])
  have 2: "gauss_int ?w - gauss_int u \<le> (exp (- (u\<^sup>2)) - exp (- (?w\<^sup>2))) / (2 * u)"
    by (rule gauss_int_tail [OF assms w(2)])
  have 3: "exp (- (?w\<^sup>2)) / (2 * ?w) < exp (- (?w\<^sup>2)) / (2 * u)"
    using assms by (intro divide_strict_left_mono) simp_all
  have "(exp (- (u\<^sup>2)) - exp (- (?w\<^sup>2))) / (2 * u)
       = exp (- (u\<^sup>2)) / (2 * u) - exp (- (?w\<^sup>2)) / (2 * u)"
    by (simp add: diff_divide_distrib)
  with 1 2 3 show ?thesis by linarith
qed

subsection \<open>Properties of the error function\<close>


lemma erf_0: "erf 0 = 0"
  by (simp add: erf_def gauss_int_0)

lemma erf_less_1: "erf x < 1"
  using gauss_int_less_total [of x] gauss_total_pos by (simp add: erf_def)


lemma erf_lower:
  assumes "0 < u"
  shows "1 - (1 / (2 * gauss_total)) / u \<le> erf u"
proof -
  have G: "0 < gauss_total" by (rule gauss_total_pos)
  have "gauss_total - gauss_int u < exp (- (u\<^sup>2)) / (2 * u)"
    by (rule gauss_total_less [OF assms])
  also have "\<dots> \<le> 1 / (2 * u)"
    using assms by (intro divide_right_mono) simp_all
  finally have "(gauss_total - gauss_int u) / gauss_total \<le> (1 / (2 * u)) / gauss_total"
    using G by (intro divide_right_mono) simp_all
  then show ?thesis using G assms by (simp add: erf_def field_simps)
qed

lemma erf_tendsto_1: "(erf \<longlongrightarrow> 1) at_top"
proof (rule tendsto_sandwich)
  show "eventually (\<lambda>u. 1 - (1 / (2 * gauss_total)) / u \<le> erf u) at_top"
    using eventually_gt_at_top [of "0::real"] by eventually_elim (rule erf_lower)
  show "eventually (\<lambda>u. erf u \<le> 1) at_top"
    by (rule always_eventually) (simp add: less_imp_le [OF erf_less_1])
  have "((\<lambda>u::real. (1 / (2 * gauss_total)) / u) \<longlongrightarrow> 0) at_top"
    by (rule real_tendsto_divide_at_top [OF tendsto_const filterlim_ident])
  then have "((\<lambda>u::real. 1 - (1 / (2 * gauss_total)) / u) \<longlongrightarrow> 1 - 0) at_top"
    by (rule tendsto_diff [OF tendsto_const])
  then show "((\<lambda>u::real. 1 - (1 / (2 * gauss_total)) / u) \<longlongrightarrow> 1) at_top" by simp
  show "((\<lambda>u::real. 1) \<longlongrightarrow> 1) at_top" by (rule tendsto_const)
qed

lemma erf_unique:
  fixes f :: "real \<Rightarrow> real"
  assumes f0: "f 0 = 0"
    and der: "\<And>x. DERIV f x :> c * exp (- (x\<^sup>2))"
    and lim: "(f \<longlongrightarrow> 1) at_top"
  shows "f x = erf x"
proof -
  have G: "0 < gauss_total" by (rule gauss_total_pos)
  have d0: "DERIV (\<lambda>x. f x - c * gauss_int x) x :> 0" for x
    by (auto intro!: derivative_eq_intros der DERIV_gauss_int)
  have eq: "f y = c * gauss_int y" for y
    using DERIV_isconst_all [of "\<lambda>x. f x - c * gauss_int x" y 0] d0
    by (simp add: f0 gauss_int_0)
  have "((\<lambda>x. (c * gauss_total) * erf x) \<longlongrightarrow> (c * gauss_total) * 1) at_top"
    by (rule tendsto_mult [OF tendsto_const erf_tendsto_1])
  moreover have "(\<lambda>x. (c * gauss_total) * erf x) = f"
    using G by (intro ext) (simp add: eq erf_def)
  ultimately have "(f \<longlongrightarrow> c * gauss_total) at_top" by simp
  then have "c * gauss_total = 1"
    using lim by (intro tendsto_unique [of at_top f]) simp_all
  then have "c = 1 / gauss_total" using G by (simp add: field_simps)
  then show ?thesis by (simp add: eq erf_def)
qed

subsection \<open>The scaled complementary error function decreases\<close>





section \<open>The normal distribution function\<close>

lemma normCdf_Fin [simp]: "normCdf (Fin x) None None = Fin (Phi x)"
  by (simp add: normCdf_def dflt_def Phi_def fin_div fin_mul)

lemma normCdf_NZero [simp]: "normCdf NZero None None = Fin (Phi 0)"
  by (simp add: normCdf_def dflt_def Phi_def fin_div fin_mul)

lemma normCdf_NaN [simp]: "normCdf NaN None None = NaN"
  by (simp add: normCdf_def dflt_def minus_jsnum_def plus_jsnum_def times_jsnum_def divide_jsnum_def)

lemma normCdf_PInf [simp]: "normCdf PInf None None = Fin 1"
  by (simp add: normCdf_def dflt_def minus_jsnum_def plus_jsnum_def times_jsnum_def divide_jsnum_def signed_inf_def)

lemma normCdf_NInf [simp]: "normCdf NInf None None = Fin 0"
  by (simp add: normCdf_def dflt_def minus_jsnum_def plus_jsnum_def times_jsnum_def divide_jsnum_def signed_inf_def signed_zero_def)

lemma normCdf_finite:
  assumes "sigma \<noteq> 0"
  shows "normCdf (Fin x) (Some (Fin mu)) (Some (Fin sigma))
       = Fin (0.5 * (1 - erf ((mu - x) / (sqrt 2 * sigma))))"
proof -
  have nz: "sqrt 2 * sigma \<noteq> 0" using assms by simp
  show ?thesis
    using assms by (simp add: normCdf_def dflt_def fin_div [OF nz] erf_0)
qed



section \<open>The prices at finite arguments\<close>











lemma warrant_d1_not_finite:
  "not_finite t \<Longrightarrow> (a + b * t) / (sigma * Math_sqrt t) = NaN"
proof (cases t)
  case PInf
  have "not_finite (a + b * PInf)" by (rule add_not_finite [OF mul_PInf])
  moreover have "not_finite (sigma * PInf)" by (rule mul_PInf)
  ultimately show ?thesis using PInf by (simp add: div_not_finite)
qed (simp_all add: not_finite_def)


section \<open>The claims of the specification\<close>

text \<open>
  Claim C1.  For all numbers \<open>S\<close>, \<open>K\<close>, \<open>sigma\<close>, \<open>r\<close>, \<open>t\<close> and \<open>d\<close>, \<open>blackScholesCall\<close>
  returns \<open>S * e\<^sup>-\<^sup>d\<^sup>t * \<Phi>(d1) - K * e\<^sup>-\<^sup>r\<^sup>t * \<Phi>(d2)\<close> with
  \<open>d1 = (ln (S / K) + (r - d + sigma\<^sup>2 / 2) * t) / (sigma * sqrt t)\<close> and
  \<open>d2 = d1 - sigma * sqrt t\<close>: the code agrees with the formula of the specification.
\<close>

theorem call_formula:
  "blackScholesCall S K sigma r t (Some d) = spec_call S K sigma r t d"
  by (simp add: blackScholesCall_def spec_call_def spec_d2_def spec_d1_def spec_Phi_def
      dflt_def Let_def Math_pow_2 neg_mul)

theorem call_formula_witness:
  "blackScholesCall (Fin 100) (Fin 100) (Fin (1/5)) (Fin (1/20)) (Fin 1) (Some (Fin 0))
     = spec_call (Fin 100) (Fin 100) (Fin (1/5)) (Fin (1/20)) (Fin 1) (Fin 0)"
  by (rule call_formula)

text \<open>
  Claim C2.  For all numbers \<open>S\<close>, \<open>K\<close>, \<open>sigma\<close>, \<open>r\<close>, \<open>t\<close> and \<open>d\<close>, \<open>blackScholesPut\<close>
  returns \<open>K * e\<^sup>-\<^sup>r\<^sup>t * \<Phi>(- d2) - S * e\<^sup>-\<^sup>d\<^sup>t * \<Phi>(- d1)\<close>, with \<open>d1\<close> and \<open>d2\<close> computed by
  the expressions of the call.
\<close>

theorem put_formula:
  "blackScholesPut S K sigma r t (Some d) = spec_put S K sigma r t d"
  by (simp add: blackScholesPut_def spec_put_def spec_d2_def spec_d1_def spec_Phi_def
      dflt_def Let_def Math_pow_2 neg_mul)

theorem put_formula_witness:
  "blackScholesPut (Fin 100) (Fin 100) (Fin (1/5)) (Fin (1/20)) (Fin 1) (Some (Fin 0))
     = spec_put (Fin 100) (Fin 100) (Fin (1/5)) (Fin (1/20)) (Fin 1) (Fin 0)"
  by (rule put_formula)

text \<open>
  Claim C3.  For all numbers \<open>S\<close>, \<open>K\<close>, \<open>sigma\<close>, \<open>r\<close>, \<open>t\<close> and \<open>q\<close>,
  \<open>blackScholesWarrantCall\<close> returns \<open>(S * \<Phi>(d1) - K * e\<^sup>-\<^sup>r\<^sup>t * \<Phi>(d2)) / q\<close> with
  \<open>d1 = (ln (S / K) + (r + sigma\<^sup>2 / 2) * t) / (sigma * sqrt t)\<close> and
  \<open>d2 = d1 - sigma * sqrt t\<close>: the spot term carries no dividend discount, and the whole
  payoff is divided by the conversion ratio.
\<close>

theorem warrant_formula:
  "blackScholesWarrantCall S K sigma r t (Some q) = spec_warrant S K sigma r t q"
  by (simp add: blackScholesWarrantCall_def spec_warrant_def spec_warrant_d2_def
      spec_warrant_d1_def spec_Phi_def dflt_def Let_def Math_pow_2 neg_mul)

theorem warrant_formula_witness:
  "blackScholesWarrantCall (Fin 100) (Fin 100) (Fin (1/5)) (Fin (1/20)) (Fin 1) (Some (Fin 2))
     = spec_warrant (Fin 100) (Fin 100) (Fin (1/5)) (Fin (1/20)) (Fin 1) (Fin 2)"
  by (rule warrant_formula)



text \<open>
  Claim C5 (warrant identity).  For all numbers \<open>S\<close>, \<open>K\<close>, \<open>sigma\<close>, \<open>r\<close> and \<open>t\<close>, the
  warrant price at conversion ratio 1 is the call price at dividend yield 0.  This holds
  at the special values too: the call's factor \<open>e\<^sup>-\<^sup>0\<^sup>t\<close> is 1 for a finite \<open>t\<close>, and for a \<open>t\<close>
  that is NaN or infinite both prices are NaN.
\<close>

theorem warrant_identity:
  "blackScholesWarrantCall S K sigma r t (Some (Fin 1)) = blackScholesCall S K sigma r t (Some (Fin 0))"
proof (cases "not_finite t")
  case True
  then show ?thesis
    by (simp add: blackScholesWarrantCall_def blackScholesCall_def dflt_def Let_def
        warrant_d1_not_finite exp_NZero_mul)
next
  case False
  then show ?thesis
    by (simp add: blackScholesWarrantCall_def blackScholesCall_def dflt_def Let_def exp_NZero_mul)
qed

theorem warrant_identity_witness:
  "blackScholesWarrantCall (Fin 100) (Fin 100) (Fin (1/5)) (Fin (1/20)) (Fin 1) (Some (Fin 1))
     = blackScholesCall (Fin 100) (Fin 100) (Fin (1/5)) (Fin (1/20)) (Fin 1) (Some (Fin 0))"
  by (rule warrant_identity)








text \<open>
  Claim C9, as amended.  The module exports \<open>blackScholesCall\<close> (also as its default
  export), \<open>blackScholesPut\<close> and \<open>blackScholesWarrantCall\<close>, and nothing else.  The
  distribution function, named \<open>normCdf\<close>, is private to the module; at finite
  arguments with \<open>sigma \<noteq> 0\<close> it evaluates \<open>0.5 * (1 - erf ((mu - x) / (sqrt 2 * sigma)))\<close>,
  and its defaults are \<open>mu = 0\<close> and \<open>sigma = 1\<close>.
\<close>

theorem module_surface:
  assumes "sigma \<noteq> 0"
  shows "set exports = {''blackScholesCall'', ''blackScholesPut'', ''blackScholesWarrantCall''}
       \<and> default_export = ''blackScholesCall''
       \<and> normCdf (Fin x) (Some (Fin mu)) (Some (Fin sigma))
           = Fin (0.5 * (1 - erf ((mu - x) / (sqrt 2 * sigma))))
       \<and> normCdf (Fin x) None None = normCdf (Fin x) (Some (Fin 0)) (Some (Fin 1))"
proof (intro conjI)
  show "set exports = {''blackScholesCall'', ''blackScholesPut'', ''blackScholesWarrantCall''}"
    by (simp add: exports_def)
  show "default_export = ''blackScholesCall''"
    by (simp add: default_export_def)
  show "normCdf (Fin x) (Some (Fin mu)) (Some (Fin sigma))
           = Fin (0.5 * (1 - erf ((mu - x) / (sqrt 2 * sigma))))"
    by (rule normCdf_finite [OF assms])
  show "normCdf (Fin x) None None = normCdf (Fin x) (Some (Fin 0)) (Some (Fin 1))"
    unfolding normCdf_def dflt_def by simp
qed

theorem module_surface_witness:
  "(2::real) \<noteq> 0
   \<and> set exports = {''blackScholesCall'', ''blackScholesPut'', ''blackScholesWarrantCall''}
   \<and> default_export = ''blackScholesCall''
   \<and> normCdf (Fin 1) (Some (Fin 3)) (Some (Fin 2))
       = Fin (0.5 * (1 - erf ((3 - 1) / (sqrt 2 * 2))))
   \<and> normCdf (Fin 1) None None = normCdf (Fin 1) (Some (Fin 0)) (Some (Fin 1))"
  using module_surface [of 2 1 3] by simp

text \<open>
  Claim C9 as stated fails: neither \<open>normalCdf\<close> nor \<open>normCdf\<close> is among the exported
  names.
\<close>

theorem normalCdf_not_exported:
  "''normalCdf'' \<notin> set exports \<and> ''normCdf'' \<notin> set exports"
  by (simp add: exports_def)



end
